theory Spec2Isabelle
  imports Complex_Main
begin

section \<open>Python values\<close>

text \<open>
  The program is a Streamlit page (\<^verbatim>\<open>app.py\<close>) that grades a timed exam. Its cells, answers
  and scores are Python objects, so the model starts with the few kinds of object the
  graded code meets.

  A \<^verbatim>\<open>str\<close> is a \<^typ>\<open>string\<close>; text outside ASCII stands as its UTF-8 bytes, and
  \<^verbatim>\<open>upper()\<close>, \<^verbatim>\<open>lower()\<close> and \<^verbatim>\<open>strip()\<close> act on the ASCII range only.

  A \<^verbatim>\<open>float\<close> is a \<open>pyfloat\<close>: a finite value is the real number it denotes, and
  arithmetic on finite values is exact: the rounding of IEEE doubles, and the overflow of
  a sum or a difference, are not modelled, so a comparison that doubles decide by a
  rounding error may come out differently here. The infinities and NaN are values of their
  own, with the comparisons and the arithmetic Python gives them.
\<close>

datatype error =
  ValueError | TypeError | IndexError | KeyError | ZeroDivisionError | OverflowError | ReadError

datatype pyfloat = Fin real | PInf | NInf | NaN

text \<open>
  \<open>NpNan\<close> is the one object \<^verbatim>\<open>numpy.nan\<close>; \<open>PyFloat NaN\<close> is any other float object
  holding NaN (what a blank cell of a CSV file becomes). Python's \<^verbatim>\<open>in\<close> tells them apart:
  it tests identity before equality, and NaN equals nothing.
\<close>

datatype pyval = PyNone | PyStr string | PyInt int | PyFloat pyfloat | NpNan

subsection \<open>Strings\<close>

definition py_isspace :: "char \<Rightarrow> bool" where
  "py_isspace c = ((of_char c :: nat) \<in> {9, 10, 11, 12, 13, 28, 29, 30, 31, 32})"

definition py_strip :: "string \<Rightarrow> string" where
  "py_strip s = rev (dropWhile py_isspace (rev (dropWhile py_isspace s)))"

definition upper_char :: "char \<Rightarrow> char" where
  "upper_char c =
     (let n = (of_char c :: nat) in if 97 \<le> n \<and> n \<le> 122 then char_of (n - 32) else c)"

definition lower_char :: "char \<Rightarrow> char" where
  "lower_char c =
     (let n = (of_char c :: nat) in if 65 \<le> n \<and> n \<le> 90 then char_of (n + 32) else c)"

definition py_upper :: "string \<Rightarrow> string" where
  "py_upper s = map upper_char s"

definition py_lower :: "string \<Rightarrow> string" where
  "py_lower s = map lower_char s"

text \<open>\<^verbatim>\<open>s.replace(',', '.')\<close>\<close>

definition replace_comma :: "string \<Rightarrow> string" where
  "replace_comma s = map (\<lambda>c. if c = CHR '','' then CHR ''.'' else c) s"

text \<open>\<^verbatim>\<open>name.endswith(suf)\<close>\<close>

definition endswith :: "string \<Rightarrow> string \<Rightarrow> bool" where
  "endswith s suf = (length suf \<le> length s \<and> drop (length s - length suf) s = suf)"

subsection \<open>Decimal digits\<close>

definition digit_char :: "nat \<Rightarrow> char" where
  "digit_char d = char_of (48 + d)"

fun str_nat :: "nat \<Rightarrow> string" where
  "str_nat n = (if n < 10 then [digit_char n] else str_nat (n div 10) @ [digit_char (n mod 10)])"

declare str_nat.simps [simp del]

text \<open>\<^verbatim>\<open>str(n)\<close> of an \<^verbatim>\<open>int\<close>\<close>

definition str_int :: "int \<Rightarrow> string" where
  "str_int i = (if i < 0 then CHR ''-'' # str_nat (nat (- i)) else str_nat (nat i))"

subsection \<open>Floats\<close>

fun fsub :: "pyfloat \<Rightarrow> pyfloat \<Rightarrow> pyfloat" where
  "fsub (Fin a) (Fin b) = Fin (a - b)"
| "fsub NaN _ = NaN"
| "fsub _ NaN = NaN"
| "fsub PInf PInf = NaN"
| "fsub NInf NInf = NaN"
| "fsub PInf _ = PInf"
| "fsub NInf _ = NInf"
| "fsub (Fin a) PInf = NInf"
| "fsub (Fin a) NInf = PInf"

fun fadd :: "pyfloat \<Rightarrow> pyfloat \<Rightarrow> pyfloat" where
  "fadd (Fin a) (Fin b) = Fin (a + b)"
| "fadd NaN _ = NaN"
| "fadd _ NaN = NaN"
| "fadd PInf NInf = NaN"
| "fadd NInf PInf = NaN"
| "fadd PInf _ = PInf"
| "fadd NInf _ = NInf"
| "fadd (Fin a) PInf = PInf"
| "fadd (Fin a) NInf = NInf"

fun fabs :: "pyfloat \<Rightarrow> pyfloat" where
  "fabs (Fin a) = Fin \<bar>a\<bar>"
| "fabs PInf = PInf"
| "fabs NInf = PInf"
| "fabs NaN = NaN"

text \<open>\<^verbatim>\<open>x <= y\<close> on floats: false as soon as one side is NaN.\<close>

fun fle :: "pyfloat \<Rightarrow> pyfloat \<Rightarrow> bool" where
  "fle (Fin a) (Fin b) = (a \<le> b)"
| "fle NaN _ = False"
| "fle _ NaN = False"
| "fle NInf _ = True"
| "fle _ PInf = True"
| "fle PInf _ = False"
| "fle (Fin a) NInf = False"

subsection \<open>Conversions\<close>

text \<open>
  \<^verbatim>\<open>float(s)\<close> and \<^verbatim>\<open>str(x)\<close> on a finite float belong to the interpreter, not to the
  program: what \<^verbatim>\<open>float\<close> makes of a \<^verbatim>\<open>str\<close> is the parameter \<open>pf\<close> (\<open>None\<close> where it
  raises \<^verbatim>\<open>ValueError\<close>), and how a finite float prints is the parameter \<open>sf\<close>. Every
  result below holds for all of them.
\<close>

type_synonym float_reader = "string \<Rightarrow> pyfloat option"
type_synonym float_printer = "real \<Rightarrow> string"

text \<open>
  \<^verbatim>\<open>float(v)\<close>. An \<^verbatim>\<open>int\<close> that would round beyond the largest double, one of
  magnitude \<open>2^1024 - 2^970\<close> or more, raises \<^verbatim>\<open>OverflowError\<close>.
\<close>

definition float_int_limit :: int where
  "float_int_limit = 2 ^ 1024 - 2 ^ 970"

fun py_float :: "float_reader \<Rightarrow> pyval \<Rightarrow> error + pyfloat" where
  "py_float pf PyNone = Inl TypeError"
| "py_float pf (PyStr s) = (case pf s of None \<Rightarrow> Inl ValueError | Some x \<Rightarrow> Inr x)"
| "py_float pf (PyInt i) =
     (if float_int_limit \<le> \<bar>i\<bar> then Inl OverflowError else Inr (Fin (of_int i)))"
| "py_float pf (PyFloat x) = Inr x"
| "py_float pf NpNan = Inr NaN"

text \<open>\<^verbatim>\<open>str(v)\<close>\<close>

fun py_str :: "float_printer \<Rightarrow> pyval \<Rightarrow> string" where
  "py_str sf PyNone = ''None''"
| "py_str sf (PyStr s) = s"
| "py_str sf (PyInt i) = str_int i"
| "py_str sf (PyFloat (Fin x)) = sf x"
| "py_str sf (PyFloat PInf) = ''inf''"
| "py_str sf (PyFloat NInf) = ''-inf''"
| "py_str sf (PyFloat NaN) = ''nan''"
| "py_str sf NpNan = ''nan''"

text \<open>\<^verbatim>\<open>str(ans)\<close> of an entry of the answer map: a \<^verbatim>\<open>str\<close>, or \<^verbatim>\<open>None\<close> when absent.\<close>

definition str_ans :: "string option \<Rightarrow> string" where
  "str_ans ans = (case ans of None \<Rightarrow> ''None'' | Some s \<Rightarrow> s)"

section \<open>Grading one numeric answer\<close>

text \<open>
  \<^verbatim>\<open>tolerance not in (None, "", np.nan)\<close>, negated: membership in the tuple is identity
  or equality with one of its three members.
\<close>

fun tolerance_blank :: "pyval \<Rightarrow> bool" where
  "tolerance_blank PyNone = True"
| "tolerance_blank (PyStr s) = (s = [])"
| "tolerance_blank NpNan = True"
| "tolerance_blank (PyInt i) = False"
| "tolerance_blank (PyFloat x) = False"

text \<open>The body of the \<^verbatim>\<open>try\<close> block of \<^verbatim>\<open>check_numeric_answer\<close>.\<close>

definition check_numeric_body ::
  "float_reader \<Rightarrow> string option \<Rightarrow> pyval \<Rightarrow> pyval \<Rightarrow> error + bool" where
  "check_numeric_body pf user_text correct_value tolerance =
     (case user_text of
        None \<Rightarrow> Inr False
      | Some s \<Rightarrow>
          if py_strip s = [] then Inr False
          else (case pf (replace_comma s) of
                  None \<Rightarrow> Inl ValueError
                | Some u \<Rightarrow>
                    (case py_float pf correct_value of
                       Inl e \<Rightarrow> Inl e
                     | Inr c \<Rightarrow>
                         (case (if \<not> tolerance_blank tolerance then py_float pf tolerance
                                else Inr (Fin 0)) of
                            Inl e \<Rightarrow> Inl e
                          | Inr tol \<Rightarrow> Inr (fle (fabs (fsub u c)) tol)))))"

text \<open>\<^verbatim>\<open>check_numeric_answer\<close>: whatever the body raises, \<^verbatim>\<open>except Exception\<close> returns False.\<close>

definition check_numeric_answer ::
  "float_reader \<Rightarrow> string option \<Rightarrow> pyval \<Rightarrow> pyval \<Rightarrow> bool" where
  "check_numeric_answer pf user_text correct_value tolerance =
     (case check_numeric_body pf user_text correct_value tolerance of
        Inl e \<Rightarrow> False
      | Inr ok \<Rightarrow> ok)"

section \<open>A reader of plain decimal literals\<close>

text \<open>
  One \<open>float_reader\<close> to run the model on concrete answers: it reads what \<^verbatim>\<open>float\<close>
  reads on a plain decimal literal (blanks around it, a sign, digits with at most one
  point) and rejects everything else.
\<close>

definition digit_val :: "char \<Rightarrow> nat option" where
  "digit_val c =
     (let n = (of_char c :: nat) in if 48 \<le> n \<and> n \<le> 57 then Some (n - 48) else None)"

fun digits_val :: "nat \<Rightarrow> string \<Rightarrow> nat option" where
  "digits_val acc [] = Some acc"
| "digits_val acc (c # cs) =
     (case digit_val c of None \<Rightarrow> None | Some d \<Rightarrow> digits_val (10 * acc + d) cs)"

definition unsigned_dec :: "string \<Rightarrow> real option" where
  "unsigned_dec s =
     (let ip = takeWhile (\<lambda>c. c \<noteq> CHR ''.'') s;
          fp = drop 1 (dropWhile (\<lambda>c. c \<noteq> CHR ''.'') s)
      in if ip = [] \<and> fp = [] then None
         else (case (digits_val 0 ip, digits_val 0 fp) of
                 (Some a, Some b) \<Rightarrow> Some (of_nat a + of_nat b / 10 ^ length fp)
               | _ \<Rightarrow> None))"

definition dec_float :: float_reader where
  "dec_float s =
     (case py_strip s of
        [] \<Rightarrow> None
      | c # cs \<Rightarrow>
          if c = CHR ''-'' then map_option (\<lambda>x. Fin (- x)) (unsigned_dec cs)
          else if c = CHR ''+'' then map_option Fin (unsigned_dec cs)
          else map_option Fin (unsigned_dec (c # cs)))"

section \<open>Grading an exam\<close>

text \<open>
  A row of the bank, as \<^verbatim>\<open>grade_exam\<close> reads it from \<^verbatim>\<open>bank.iterrows()\<close>. The six
  columns the loader requires are always there, \<^verbatim>\<open>variant\<close> and \<^verbatim>\<open>qnum\<close> as the
  integers the loader (or the generator) left; \<open>qtype\<close> is the column \<^verbatim>\<open>type\<close>. The other
  columns are optional: \<open>None\<close> is a bank without the column.
\<close>

record row =
  variant :: int
  qnum :: int
  qtype :: pyval
  question :: pyval
  optA :: "pyval option"
  optB :: "pyval option"
  optC :: "pyval option"
  optD :: "pyval option"
  correct :: pyval
  score :: pyval
  solution :: "pyval option"
  topic :: "pyval option"
  difficulty :: "pyval option"
  tolerance :: "pyval option"

text \<open>The answer map \<^verbatim>\<open>ss.answers\<close>: the page stores the text of a widget under \<^verbatim>\<open>(variant, qnum)\<close>.\<close>

type_synonym answers = "int \<times> int \<Rightarrow> string option"

text \<open>One dictionary of \<^verbatim>\<open>details\<close>.\<close>

record detail =
  d_variant :: int
  d_qnum :: int
  d_type :: pyval
  d_topic :: pyval
  d_difficulty :: pyval
  d_correct :: pyval
  d_your :: "string option"
  d_is_correct :: bool
  d_score :: pyfloat
  d_max_score :: pyfloat

text \<open>\<^verbatim>\<open>row.get(col, default)\<close> on an optional column\<close>

definition row_get :: "pyval option \<Rightarrow> pyval \<Rightarrow> pyval" where
  "row_get cell dflt = (case cell of None \<Rightarrow> dflt | Some v \<Rightarrow> v)"

text \<open>\<^verbatim>\<open>answers.get(key, None)\<close>: the value read, and the dictionary after the call.\<close>

definition dict_get :: "answers \<Rightarrow> int \<times> int \<Rightarrow> string option \<times> answers" where
  "dict_get d k = (d k, d)"

text \<open>\<^verbatim>\<open>str(row.type).lower() == 'mcq'\<close>\<close>

definition is_mcq :: "float_printer \<Rightarrow> row \<Rightarrow> bool" where
  "is_mcq sf r = (py_lower (py_str sf (qtype r)) = ''mcq'')"

text \<open>The value of \<^verbatim>\<open>ok\<close> for one row and the answer read for it.\<close>

definition row_ok :: "float_printer \<Rightarrow> float_reader \<Rightarrow> row \<Rightarrow> string option \<Rightarrow> bool" where
  "row_ok sf pf r ans =
     (if is_mcq sf r then py_upper (str_ans ans) = py_upper (py_str sf (correct r))
      else check_numeric_answer pf ans (correct r) (row_get (tolerance r) PyNone))"

text \<open>
  The rest of the loop body: \<^verbatim>\<open>s\<close>, the two sums and the appended detail. The
  accumulator is \<open>(details, tot, max_tot)\<close>, for \<^verbatim>\<open>details\<close>, \<^verbatim>\<open>total\<close> and
  \<^verbatim>\<open>max_total\<close>; \<^verbatim>\<open>float(row.score)\<close> may raise.
\<close>

definition grade_row ::
  "float_printer \<Rightarrow> float_reader \<Rightarrow> row \<Rightarrow> string option \<Rightarrow>
     detail list \<times> pyfloat \<times> pyfloat \<Rightarrow> error + detail list \<times> pyfloat \<times> pyfloat" where
  "grade_row sf pf r ans acc =
     (case acc of (details, tot, max_tot) \<Rightarrow>
        let ok = row_ok sf pf r ans in
        (case (if ok then py_float pf (score r) else Inr (Fin 0)) of
           Inl e \<Rightarrow> Inl e
         | Inr s \<Rightarrow>
             (case py_float pf (score r) of
                Inl e \<Rightarrow> Inl e
              | Inr m \<Rightarrow>
                  Inr (details @
                         [\<lparr>d_variant = variant r, d_qnum = qnum r, d_type = qtype r,
                           d_topic = row_get (topic r) (PyStr []),
                           d_difficulty = row_get (difficulty r) (PyStr []),
                           d_correct = correct r, d_your = ans, d_is_correct = ok,
                           d_score = s, d_max_score = m\<rparr>],
                       fadd tot s, fadd max_tot m))))"

text \<open>The loop over the rows; the answer map is threaded through it.\<close>

fun grade_rows ::
  "float_printer \<Rightarrow> float_reader \<Rightarrow> row list \<Rightarrow> detail list \<times> pyfloat \<times> pyfloat \<Rightarrow>
     answers \<Rightarrow> (error + detail list \<times> pyfloat \<times> pyfloat) \<times> answers" where
  "grade_rows sf pf [] acc d = (Inr acc, d)"
| "grade_rows sf pf (r # rs) acc d =
     (case dict_get d (variant r, qnum r) of (ans, d1) \<Rightarrow>
        (case grade_row sf pf r ans acc of
           Inl e \<Rightarrow> (Inl e, d1)
         | Inr acc1 \<Rightarrow> grade_rows sf pf rs acc1 d1))"

text \<open>
  \<^verbatim>\<open>grade_exam(bank, answers)\<close>: what it returns, \<open>(total, max_total, details)\<close> or the
  exception it raises, and the answer map as the call leaves it.
\<close>

definition grade_exam ::
  "float_printer \<Rightarrow> float_reader \<Rightarrow> row list \<Rightarrow> answers \<Rightarrow>
     (error + pyfloat \<times> pyfloat \<times> detail list) \<times> answers" where
  "grade_exam sf pf bank d =
     (case grade_rows sf pf bank ([], Fin 0, Fin 0) d of
        (Inl e, d1) \<Rightarrow> (Inl e, d1)
      | (Inr (details, tot, max_tot), d1) \<Rightarrow> (Inr (tot, max_tot, details), d1))"

text \<open>
  \<^verbatim>\<open>float(row.score)\<close> when it returns a finite value, the value \<open>score_of\<close> it then
  has, and what the loop adds to \<^verbatim>\<open>total\<close> for the row: the score when the row is
  graded correct, 0.0 otherwise.
\<close>

definition score_float :: "float_reader \<Rightarrow> row \<Rightarrow> real option" where
  "score_float pf r = (case py_float pf (score r) of Inr (Fin x) \<Rightarrow> Some x | _ \<Rightarrow> None)"

definition score_finite :: "float_reader \<Rightarrow> row \<Rightarrow> bool" where
  "score_finite pf r = (score_float pf r \<noteq> None)"

definition score_of :: "float_reader \<Rightarrow> row \<Rightarrow> real" where
  "score_of pf r = (case score_float pf r of None \<Rightarrow> 0 | Some x \<Rightarrow> x)"

definition graded_correct :: "float_printer \<Rightarrow> float_reader \<Rightarrow> answers \<Rightarrow> row \<Rightarrow> bool" where
  "graded_correct sf pf d r = row_ok sf pf r (d (variant r, qnum r))"

definition awarded :: "float_printer \<Rightarrow> float_reader \<Rightarrow> answers \<Rightarrow> row \<Rightarrow> real" where
  "awarded sf pf d r = (if graded_correct sf pf d r then score_of pf r else 0)"

section \<open>Loading an uploaded bank\<close>

text \<open>
  The table as \<^verbatim>\<open>pd.read_csv\<close> or \<^verbatim>\<open>pd.read_json\<close> delivers it: the columns in order,
  each with its cells. The two readers belong to pandas and are parameters, \<open>Inl\<close> where
  they raise; so is \<open>rd_int\<close>, what \<^verbatim>\<open>int\<close> makes of a \<^verbatim>\<open>str\<close> cell.
\<close>

type_synonym frame = "(string \<times> pyval list) list"

record 'b upload =
  name :: string
  data :: 'b

datatype ui_msg =
    ErrorOnlyCsvJson
  | ErrorRead error
  | ErrorMissing "string list"
  | InfoDemoBank
  | WarningTimeUp

definition columns :: "frame \<Rightarrow> string list" where
  "columns df = map fst df"

definition required :: "string list" where
  "required = [''variant'', ''qnum'', ''type'', ''question'', ''correct'', ''score'']"

text \<open>
  One cell under \<^verbatim>\<open>astype(int)\<close>: a finite float is truncated, a float that is not finite
  and a text that is no integer raise.
\<close>

fun int_cast :: "(string \<Rightarrow> int option) \<Rightarrow> pyval \<Rightarrow> error + int" where
  "int_cast rd_int (PyInt i) = Inr i"
| "int_cast rd_int (PyFloat (Fin x)) = Inr (if 0 \<le> x then \<lfloor>x\<rfloor> else \<lceil>x\<rceil>)"
| "int_cast rd_int (PyFloat PInf) = Inl ValueError"
| "int_cast rd_int (PyFloat NInf) = Inl ValueError"
| "int_cast rd_int (PyFloat NaN) = Inl ValueError"
| "int_cast rd_int NpNan = Inl ValueError"
| "int_cast rd_int (PyStr s) = (case rd_int s of None \<Rightarrow> Inl ValueError | Some i \<Rightarrow> Inr i)"
| "int_cast rd_int PyNone = Inl TypeError"

fun astype_int :: "(string \<Rightarrow> int option) \<Rightarrow> pyval list \<Rightarrow> error + pyval list" where
  "astype_int rd_int [] = Inr []"
| "astype_int rd_int (v # vs) =
     (case int_cast rd_int v of
        Inl e \<Rightarrow> Inl e
      | Inr i \<Rightarrow> (case astype_int rd_int vs of Inl e \<Rightarrow> Inl e | Inr cells \<Rightarrow> Inr (PyInt i # cells)))"

text \<open>\<^verbatim>\<open>df[c] = df[c].astype(int)\<close>\<close>

definition coerce_column :: "(string \<Rightarrow> int option) \<Rightarrow> string \<Rightarrow> frame \<Rightarrow> error + frame" where
  "coerce_column rd_int c df =
     (case map_of df c of
        None \<Rightarrow> Inl KeyError
      | Some cells \<Rightarrow>
          (case astype_int rd_int cells of
             Inl e \<Rightarrow> Inl e
           | Inr cells' \<Rightarrow> Inr (map (\<lambda>(n, vs). if n = c then (n, cells') else (n, vs)) df)))"

text \<open>
  \<^verbatim>\<open>load_bank_from_upload\<close>: the messages it shows with \<^verbatim>\<open>st.error\<close>, and either the
  value it returns (\<open>None\<close> or the table) or the exception that leaves it. Only the two
  reads stand inside \<^verbatim>\<open>try\<close>.
\<close>

definition load_bank_from_upload ::
  "('b \<Rightarrow> error + frame) \<Rightarrow> ('b \<Rightarrow> error + frame) \<Rightarrow> (string \<Rightarrow> int option) \<Rightarrow>
     'b upload option \<Rightarrow> ui_msg list \<times> (error + frame option)" where
  "load_bank_from_upload read_csv read_json rd_int upload =
     (case upload of
        None \<Rightarrow> ([], Inr None)
      | Some up \<Rightarrow>
          let nm = py_lower (name up) in
          if \<not> endswith nm ''.csv'' \<and> \<not> endswith nm ''.json'' then ([ErrorOnlyCsvJson], Inr None)
          else
            (case (if endswith nm ''.csv'' then read_csv (data up) else read_json (data up)) of
               Inl e \<Rightarrow> ([ErrorRead e], Inr None)
             | Inr df \<Rightarrow>
                 let miss = filter (\<lambda>c. c \<notin> set (columns df)) required in
                 if miss \<noteq> [] then ([ErrorMissing miss], Inr None)
                 else
                   (case coerce_column rd_int ''variant'' df of
                      Inl e \<Rightarrow> ([], Inl e)
                    | Inr df1 \<Rightarrow>
                        (case coerce_column rd_int ''qnum'' df1 of
                           Inl e \<Rightarrow> ([], Inl e)
                         | Inr df2 \<Rightarrow> ([], Inr (Some df2))))))"

text \<open>
  The import block of the sidebar: \<^verbatim>\<open>bank_df = load_bank_from_upload(up)\<close>, and the
  synthetic bank when that is \<^verbatim>\<open>None\<close>. \<open>DemoBank\<close> stands for the call
  \<^verbatim>\<open>generate_demo_bank()\<close>. An exception leaves the block, and the script, as it left the
  loader.
\<close>

datatype bank_source = Imported frame | DemoBank

definition import_bank ::
  "('b \<Rightarrow> error + frame) \<Rightarrow> ('b \<Rightarrow> error + frame) \<Rightarrow> (string \<Rightarrow> int option) \<Rightarrow>
     'b upload option \<Rightarrow> ui_msg list \<times> (error + bank_source)" where
  "import_bank read_csv read_json rd_int upload =
     (case load_bank_from_upload read_csv read_json rd_int upload of
        (msgs, Inl e) \<Rightarrow> (msgs, Inl e)
      | (msgs, Inr None) \<Rightarrow> (msgs @ [InfoDemoBank], Inr DemoBank)
      | (msgs, Inr (Some df)) \<Rightarrow> (msgs, Inr (Imported df)))"

section \<open>The session and its timer\<close>

text \<open>
  \<^verbatim>\<open>st.session_state\<close>. Times are microseconds, the resolution of \<^verbatim>\<open>datetime\<close>;
  \<open>start_time\<close> is \<open>None\<close> until a start.
\<close>

record session =
  started :: bool
  submitted :: bool
  start_time :: "int option"
  answers :: answers
  active_variant :: int

definition EXAM_DURATION_MIN :: int where
  "EXAM_DURATION_MIN = 100"

text \<open>\<^verbatim>\<open>timedelta(minutes=EXAM_DURATION_MIN)\<close>\<close>

definition duration :: int where
  "duration = EXAM_DURATION_MIN * 60 * 1000000"

text \<open>\<^verbatim>\<open>remain = max(timedelta(minutes=EXAM_DURATION_MIN) - elapsed, timedelta(seconds=0))\<close>\<close>

definition remain :: "int \<Rightarrow> int \<Rightarrow> int" where
  "remain now t0 = max (duration - (now - t0)) 0"

text \<open>
  The timer block, run at time \<open>now\<close>: the session it leaves, the \<open>(mins, secs)\<close> it
  shows, the warning it shows and whether it asks for a rerun. \<^verbatim>\<open>datetime.now() - None\<close>
  raises.
\<close>

definition timer_block ::
  "int \<Rightarrow> session \<Rightarrow> error + session \<times> (int \<times> int) option \<times> ui_msg list \<times> bool" where
  "timer_block now ss =
     (if started ss then
        (case start_time ss of
           None \<Rightarrow> Inl TypeError
         | Some t0 \<Rightarrow>
             let r = remain now t0;
                 mins = r div 60000000;
                 secs = (r div 1000000) mod 60
             in if r \<le> 0 \<and> \<not> submitted ss
                then Inr (ss\<lparr>submitted := True\<rparr>, Some (mins, secs), [WarningTimeUp], True)
                else Inr (ss, Some (mins, secs), [], False))
      else Inr (ss, None, [], False))"

section \<open>The synthetic bank\<close>

text \<open>
  \<^verbatim>\<open>generate_demo_bank\<close> draws from the module \<^verbatim>\<open>random\<close>, whose generator is global
  state of the process. The generator is not part of the program: \<open>randlib\<close> holds what
  the program uses of it, each drawing function taking the state and returning the new
  one, and the state of the two global generators is the \<open>world\<close> the function runs in.
\<close>

record ('g, 'n) randlib =
  seed_random :: "int \<Rightarrow> 'g"
  seed_numpy :: "int \<Rightarrow> 'n"
  randint :: "int \<Rightarrow> int \<Rightarrow> 'g \<Rightarrow> int \<times> 'g"
  shuffle :: "int list \<Rightarrow> 'g \<Rightarrow> int list \<times> 'g"

record ('g, 'n) world =
  py_random :: 'g
  np_random :: 'n

definition TOTAL_QUESTIONS :: int where
  "TOTAL_QUESTIONS = 40"

definition TOTAL_VARIANTS :: int where
  "TOTAL_VARIANTS = 4"

text \<open>The texts of the page that are not ASCII, as their UTF-8 bytes.\<close>

definition utf8 :: "nat list \<Rightarrow> string" where
  "utf8 bs = map char_of bs"

definition topics :: "string list" where
  "topics =
     [utf8 [208, 144, 208, 187, 208, 179, 208, 181, 208, 177, 209, 128],
      utf8 [208, 164, 209, 131, 208, 189, 208, 186, 209, 134, 47, 208, 147, 209, 128, 208, 176,
            209, 132, 208, 184, 208, 186],
      utf8 [208, 147, 208, 181, 208, 190, 208, 188, 208, 181, 209, 130, 209, 128],
      utf8 [208, 156, 208, 176, 208, 179, 208, 176, 208, 180, 208, 187, 208, 176, 208, 187, 47,
            208, 161, 209, 130, 208, 176, 209, 130, 208, 184, 209, 129, 209, 130, 208, 184, 208,
            186]]"

definition mcq_question_tail :: string where
  "mcq_question_tail =
     utf8 [46, 32, 120, 45, 208, 184, 208, 185, 208, 189, 32, 209, 131, 209, 130, 208, 179, 208,
           176, 63]"

definition mcq_solution_arrow :: string where
  "mcq_solution_arrow = utf8 [32, 226, 135, 146, 32, 120, 61]"

definition num_question_head :: string where
  "num_question_head = utf8 [208, 160, 208, 176, 208, 180, 208, 184, 209, 131, 209, 129, 32]"

definition num_question_tail :: string where
  "num_question_tail =
     utf8 [32, 209, 129, 208, 188, 32, 209, 130, 208, 190, 208, 185, 209, 128, 208, 179, 208, 184,
           208, 185, 208, 189, 32, 209, 130, 208, 176, 208, 187, 208, 177, 208, 176, 208, 185,
           208, 179, 32, 207, 128, 61, 51, 46, 49, 52, 49, 54, 32, 208, 179, 209, 141, 208, 182,
           32, 209, 130, 208, 190, 208, 190, 209, 134, 208, 190, 208, 190, 208, 180, 32, 208, 190,
           208, 187, 208, 190, 208, 190, 209, 128, 208, 190, 208, 185, 32, 40, 209, 129, 208, 188,
           194, 178, 41, 46]"

definition num_solution_head :: string where
  "num_solution_head =
     utf8 [83, 61, 207, 128, 114, 194, 178, 61, 51, 46, 49, 52, 49, 54, 195, 151]"

definition num_solution_mid :: string where
  "num_solution_mid = utf8 [194, 178, 226, 137, 136]"

definition difficulties :: "string list" where
  "difficulties = [''Easy'', ''Medium'', ''Hard'']"

text \<open>\<^verbatim>\<open>xs[i]\<close> and \<^verbatim>\<open>xs.index(x)\<close>, \<open>None\<close> where Python raises.\<close>

definition item :: "'a list \<Rightarrow> nat \<Rightarrow> 'a option" where
  "item xs i = (if i < length xs then Some (xs ! i) else None)"

fun index_of :: "int \<Rightarrow> int list \<Rightarrow> nat option" where
  "index_of x [] = None"
| "index_of x (y # ys) = (if y = x then Some 0 else map_option Suc (index_of x ys))"

text \<open>
  \<^verbatim>\<open>round(x, 2)\<close>: to the nearest hundredth, a tie to the even one. For the radii 2 to 12
  the areas and tolerances below are the ones double arithmetic gives.
\<close>

definition py_round2 :: "real \<Rightarrow> real" where
  "py_round2 x =
     (let y = x * 100; f = \<lfloor>y\<rfloor>; d = y - of_int f
      in of_int (if d < 1 / 2 then f else if 1 / 2 < d then f + 1
                 else if even f then f else f + 1) / 100)"

text \<open>The row of an odd \<^verbatim>\<open>q\<close>: a linear equation, multiple choice.\<close>

definition mcq_row ::
  "('g, 'n) randlib \<Rightarrow> int \<Rightarrow> int \<Rightarrow> 'g \<Rightarrow> (error + row) \<times> 'g" where
  "mcq_row L v q g =
     (case randint L 2 9 g of (a, g1) \<Rightarrow>
      case randint L 0 9 g1 of (b, g2) \<Rightarrow>
      case randint L 1 9 g2 of (x, g3) \<Rightarrow>
      let c = a * x + b;
          qtext = str_int a @ ''x + '' @ str_int b @ '' = '' @ str_int c @ mcq_question_tail;
          correct_val = x
      in case shuffle L [correct_val, correct_val + 1, correct_val - 1, correct_val + 2] g3 of
           (options_vals, g4) \<Rightarrow>
             (case index_of correct_val options_vals of
                None \<Rightarrow> (Inl ValueError, g4)
              | Some k \<Rightarrow>
                  (case item ''ABCD'' k of
                     None \<Rightarrow> (Inl IndexError, g4)
                   | Some correct_letter \<Rightarrow>
                       if length options_vals < 4 then (Inl IndexError, g4)
                       else if a = 0 then (Inl ZeroDivisionError, g4)
                       else
                         (Inr \<lparr>variant = v, qnum = q, qtype = PyStr ''mcq'',
                               question = PyStr qtext,
                               optA = Some (PyStr (str_int (options_vals ! 0))),
                               optB = Some (PyStr (str_int (options_vals ! 1))),
                               optC = Some (PyStr (str_int (options_vals ! 2))),
                               optD = Some (PyStr (str_int (options_vals ! 3))),
                               correct = PyStr [correct_letter], score = PyInt 1,
                               solution =
                                 Some (PyStr (str_int a @ ''x = '' @ str_int c @ ''-'' @ str_int b
                                        @ mcq_solution_arrow @ str_int ((c - b) div a))),
                               topic = Some (PyStr (topics ! nat ((q - 1) mod 4))),
                               difficulty = Some (PyStr (difficulties ! nat (q mod 3))),
                               tolerance = Some (PyStr [])\<rparr>, g4))))"

text \<open>The row of an even \<^verbatim>\<open>q\<close>: the area of a circle, numeric.\<close>

definition num_row ::
  "('g, 'n) randlib \<Rightarrow> float_printer \<Rightarrow> int \<Rightarrow> int \<Rightarrow> 'g \<Rightarrow> (error + row) \<times> 'g" where
  "num_row L sf v q g =
     (case randint L 2 12 g of (r, g1) \<Rightarrow>
      let area = py_round2 (3.1416 * of_int r * of_int r);
          qtext = num_question_head @ str_int r @ num_question_tail
      in (Inr \<lparr>variant = v, qnum = q, qtype = PyStr ''num'', question = PyStr qtext,
               optA = Some (PyStr []), optB = Some (PyStr []), optC = Some (PyStr []),
               optD = Some (PyStr []),
               correct = PyFloat (Fin area), score = PyInt 1,
               solution =
                 Some (PyStr (num_solution_head @ str_int r @ num_solution_mid @ sf area)),
               topic = Some (PyStr (topics ! nat ((q - 1) mod 4))),
               difficulty = Some (PyStr (difficulties ! nat (q mod 3))),
               tolerance = Some (PyFloat (Fin (py_round2 (0.05 * area))))\<rparr>, g1))"

text \<open>The inner loop, over \<^verbatim>\<open>q\<close>, and the outer loop, over \<^verbatim>\<open>v\<close>.\<close>

fun gen_questions ::
  "('g, 'n) randlib \<Rightarrow> float_printer \<Rightarrow> int \<Rightarrow> int list \<Rightarrow> row list \<Rightarrow> 'g \<Rightarrow>
     (error + row list) \<times> 'g" where
  "gen_questions L sf v [] rows g = (Inr rows, g)"
| "gen_questions L sf v (q # qs) rows g =
     (case (if q mod 2 = 1 then mcq_row L v q g else num_row L sf v q g) of
        (Inl e, g1) \<Rightarrow> (Inl e, g1)
      | (Inr r, g1) \<Rightarrow> gen_questions L sf v qs (rows @ [r]) g1)"

fun gen_variants ::
  "('g, 'n) randlib \<Rightarrow> float_printer \<Rightarrow> int list \<Rightarrow> row list \<Rightarrow> 'g \<Rightarrow>
     (error + row list) \<times> 'g" where
  "gen_variants L sf [] rows g = (Inr rows, g)"
| "gen_variants L sf (v # vs) rows g =
     (case gen_questions L sf v [1..TOTAL_QUESTIONS] rows g of
        (Inl e, g1) \<Rightarrow> (Inl e, g1)
      | (Inr rows1, g1) \<Rightarrow> gen_variants L sf vs rows1 g1)"

text \<open>
  \<^verbatim>\<open>generate_demo_bank(seed)\<close> run in a world: the bank or the exception, and the world it
  leaves. \<^verbatim>\<open>np.random.seed\<close> raises outside \<open>0 .. 2^32 - 1\<close>. (The \<^verbatim>\<open>st.cache_data\<close>
  around it hands out the stored result of an earlier call with the same seed.)
\<close>

definition generate_demo_bank ::
  "('g, 'n) randlib \<Rightarrow> float_printer \<Rightarrow> int \<Rightarrow> ('g, 'n) world \<Rightarrow>
     (error + row list) \<times> ('g, 'n) world" where
  "generate_demo_bank L sf seed w =
     (let w1 = w\<lparr>py_random := seed_random L seed\<rparr>
      in if seed < 0 \<or> 2 ^ 32 \<le> seed then (Inl ValueError, w1)
         else
           let w2 = w1\<lparr>np_random := seed_numpy L seed\<rparr>
           in case gen_variants L sf [1..TOTAL_VARIANTS] [] (py_random w2) of
                (res, g) \<Rightarrow> (res, w2\<lparr>py_random := g\<rparr>))"

section \<open>A printer of two-decimal floats\<close>

text \<open>
  One \<open>float_printer\<close> to run the model on concrete rows: it prints a float of at most
  two decimals the way \<^verbatim>\<open>str\<close> does (\<^verbatim>\<open>113.1\<close>, \<^verbatim>\<open>12.57\<close>, \<^verbatim>\<open>1.0\<close>).
\<close>

definition str_float2 :: float_printer where
  "str_float2 x =
     (let k = nat \<lfloor>\<bar>x\<bar> * 100\<rfloor>
      in (if x < 0 then ''-'' else []) @ str_nat (k div 100) @ ''.''
         @ [digit_char ((k div 10) mod 10)]
         @ (if k mod 10 = 0 then [] else [digit_char (k mod 10)]))"

section \<open>A reader of plain decimal integers\<close>

text \<open>One \<open>rd_int\<close> to run the loader on concrete cells: blanks, a sign, digits.\<close>

definition dec_int :: "string \<Rightarrow> int option" where
  "dec_int s =
     (case py_strip s of
        [] \<Rightarrow> None
      | c # cs \<Rightarrow>
          if c = CHR ''-'' then (if cs = [] then None else map_option (\<lambda>n. - int n) (digits_val 0 cs))
          else if c = CHR ''+'' then (if cs = [] then None else map_option int (digits_val 0 cs))
          else map_option int (digits_val 0 (c # cs)))"

section \<open>Concrete rows and files\<close>

text \<open>The row \<^verbatim>\<open>{variant: 1, qnum: 1, type: mcq, correct: "B", score: 1}\<close>.\<close>

definition mcq_B :: row where
  "mcq_B = \<lparr>variant = 1, qnum = 1, qtype = PyStr ''mcq'', question = PyStr ''2x + 1 = 7'',
            optA = Some (PyStr ''2''), optB = Some (PyStr ''3''), optC = None, optD = None,
            correct = PyStr ''B'', score = PyInt 1, solution = None, topic = None,
            difficulty = None, tolerance = None\<rparr>"

text \<open>A numeric row of a CSV file whose \<^verbatim>\<open>tolerance\<close> cell is blank: pandas reads NaN.\<close>

definition num_10 :: row where
  "num_10 = \<lparr>variant = 1, qnum = 2, qtype = PyStr ''num'', question = PyStr ''5 + 5'',
             optA = None, optB = None, optC = None, optD = None,
             correct = PyFloat (Fin 10), score = PyInt 1, solution = None, topic = None,
             difficulty = None, tolerance = Some (PyFloat NaN)\<rparr>"

text \<open>A CSV file with every required column, and \<^verbatim>\<open>abc\<close> in the column \<^verbatim>\<open>variant\<close>.\<close>

definition abc_variant_csv :: "frame upload" where
  "abc_variant_csv =
     \<lparr>name = ''bank.csv'',
      data = [(''variant'', [PyStr ''abc'']), (''qnum'', [PyInt 1]), (''type'', [PyStr ''mcq'']),
              (''question'', [PyStr ''2x + 1 = 7'']), (''correct'', [PyStr ''B'']),
              (''score'', [PyInt 1])]\<rparr>"

section \<open>Facts about the model\<close>

subsection \<open>Floats and strings\<close>

lemma fle_NaN_right: "fle x NaN = False"
  by (cases x) simp_all

lemma upper_None: "py_upper ''None'' = ''NONE''"
  by code_simp

lemma upper_letters:
  "py_upper ''A'' = ''A''" "py_upper ''B'' = ''B''" "py_upper ''C'' = ''C''"
  "py_upper ''D'' = ''D''" "py_upper ''b'' = ''B''"
  by code_simp+

lemma lower_mcq: "py_lower ''mcq'' = ''mcq''"
  by code_simp

subsection \<open>The grading loop\<close>

text \<open>The loop only reads the answer map.\<close>

lemma grade_rows_answers: "snd (grade_rows sf pf rs acc d) = d"
proof (induction rs arbitrary: acc)
  case Nil
  show ?case by simp
next
  case (Cons r rs)
  show ?case
  proof (cases "grade_row sf pf r (d (variant r, qnum r)) acc")
    case (Inl e)
    then show ?thesis by (simp add: dict_get_def)
  next
    case (Inr acc1)
    then show ?thesis using Cons.IH [of acc1] by (simp add: dict_get_def)
  qed
qed

lemma grade_exam_answers: "snd (grade_exam sf pf bank d) = d"
proof -
  obtain res d1 where g: "grade_rows sf pf bank ([], Fin 0, Fin 0) d = (res, d1)"
    by (cases "grade_rows sf pf bank ([], Fin 0, Fin 0) d")
  have "d1 = d" using grade_rows_answers [of sf pf bank "([], Fin 0, Fin 0)" d] g by simp
  then show ?thesis using g
    by (cases res) (auto simp: grade_exam_def split: prod.splits)
qed

text \<open>What one pass of the loop body appends and adds.\<close>

lemma grade_row_Inr:
  assumes "grade_row sf pf r ans (ds0, t0, m0) = Inr (ds, t, m)"
  shows "\<exists>dt. ds = ds0 @ [dt] \<and> d_is_correct dt = row_ok sf pf r ans \<and> d_your dt = ans
           \<and> py_float pf (score r) = Inr (d_max_score dt)
           \<and> d_score dt = (if row_ok sf pf r ans then d_max_score dt else Fin 0)
           \<and> t = fadd t0 (d_score dt) \<and> m = fadd m0 (d_max_score dt)"
  using assms
  by (auto simp: grade_row_def Let_def split: sum.splits if_splits)

text \<open>When the loop returns, the details it added stand in the order of the rows.\<close>

lemma grade_rows_Inr:
  assumes "grade_rows sf pf rs (ds0, t0, m0) d = (Inr (ds, t, m), d')"
  shows "\<exists>ds1. ds = ds0 @ ds1 \<and> length ds1 = length rs \<and>
           (\<forall>i<length rs.
              d_is_correct (ds1 ! i) = row_ok sf pf (rs ! i) (d (variant (rs ! i), qnum (rs ! i)))
            \<and> d_your (ds1 ! i) = d (variant (rs ! i), qnum (rs ! i))
            \<and> py_float pf (score (rs ! i)) = Inr (d_max_score (ds1 ! i))
            \<and> d_score (ds1 ! i) = (if d_is_correct (ds1 ! i) then d_max_score (ds1 ! i) else Fin 0))"
  using assms
proof (induction rs arbitrary: ds0 t0 m0)
  case Nil
  then show ?case by simp
next
  case (Cons r rs)
  let ?ans = "d (variant r, qnum r)"
  from Cons.prems obtain acc1 where
    a1: "grade_row sf pf r ?ans (ds0, t0, m0) = Inr acc1"
    and rest: "grade_rows sf pf rs acc1 d = (Inr (ds, t, m), d')"
    by (auto simp: dict_get_def split: sum.splits)
  obtain dsa ta ma where acc1: "acc1 = (dsa, ta, ma)" by (cases acc1) auto
  from grade_row_Inr [OF a1 [unfolded acc1]] obtain dt where
    dt: "dsa = ds0 @ [dt]" "d_is_correct dt = row_ok sf pf r ?ans" "d_your dt = ?ans"
        "py_float pf (score r) = Inr (d_max_score dt)"
        "d_score dt = (if row_ok sf pf r ?ans then d_max_score dt else Fin 0)"
    by blast
  from Cons.IH [OF rest [unfolded acc1]] obtain ds1 where
    ds1: "ds = dsa @ ds1" "length ds1 = length rs"
    and all: "\<forall>i<length rs.
              d_is_correct (ds1 ! i) = row_ok sf pf (rs ! i) (d (variant (rs ! i), qnum (rs ! i)))
            \<and> d_your (ds1 ! i) = d (variant (rs ! i), qnum (rs ! i))
            \<and> py_float pf (score (rs ! i)) = Inr (d_max_score (ds1 ! i))
            \<and> d_score (ds1 ! i) = (if d_is_correct (ds1 ! i) then d_max_score (ds1 ! i) else Fin 0)"
    by blast
  let ?ds = "dt # ds1" and ?rs = "r # rs"
  have "ds = ds0 @ ?ds" using dt(1) ds1(1) by simp
  moreover have "length ?ds = length ?rs" using ds1(2) by simp
  moreover have "\<forall>i<length ?rs.
              d_is_correct (?ds ! i) = row_ok sf pf (?rs ! i) (d (variant (?rs ! i), qnum (?rs ! i)))
            \<and> d_your (?ds ! i) = d (variant (?rs ! i), qnum (?rs ! i))
            \<and> py_float pf (score (?rs ! i)) = Inr (d_max_score (?ds ! i))
            \<and> d_score (?ds ! i) = (if d_is_correct (?ds ! i) then d_max_score (?ds ! i) else Fin 0)"
  proof (intro allI impI)
    fix i assume "i < length ?rs"
    then show "d_is_correct (?ds ! i) = row_ok sf pf (?rs ! i) (d (variant (?rs ! i), qnum (?rs ! i)))
            \<and> d_your (?ds ! i) = d (variant (?rs ! i), qnum (?rs ! i))
            \<and> py_float pf (score (?rs ! i)) = Inr (d_max_score (?ds ! i))
            \<and> d_score (?ds ! i) = (if d_is_correct (?ds ! i) then d_max_score (?ds ! i) else Fin 0)"
      using dt all by (cases i) simp_all
  qed
  ultimately show ?case by blast
qed

lemma grade_exam_Inr:
  assumes "fst (grade_exam sf pf bank d) = Inr (t, m, ds)" and "i < length bank"
  shows "length ds = length bank
     \<and> d_is_correct (ds ! i) = row_ok sf pf (bank ! i) (d (variant (bank ! i), qnum (bank ! i)))
     \<and> d_your (ds ! i) = d (variant (bank ! i), qnum (bank ! i))
     \<and> py_float pf (score (bank ! i)) = Inr (d_max_score (ds ! i))
     \<and> d_score (ds ! i) = (if d_is_correct (ds ! i) then d_max_score (ds ! i) else Fin 0)"
proof -
  obtain res d1 where g: "grade_rows sf pf bank ([], Fin 0, Fin 0) d = (res, d1)"
    by (cases "grade_rows sf pf bank ([], Fin 0, Fin 0) d")
  with assms(1) have "res = Inr (ds, t, m)"
    by (cases res) (auto simp: grade_exam_def split: prod.splits)
  with g have "grade_rows sf pf bank ([], Fin 0, Fin 0) d = (Inr (ds, t, m), d1)" by simp
  from grade_rows_Inr [OF this] assms(2) show ?thesis by auto
qed

subsection \<open>One numeric answer\<close>

text \<open>
  With an answer that parses and a correct value that is a finite number, the answer is
  accepted exactly when its deviation is within the tolerance read, 0 for a tolerance that
  is \<^verbatim>\<open>None\<close>, \<^verbatim>\<open>""\<close> or the object \<^verbatim>\<open>np.nan\<close>. The deviation here is the exact
  one: where doubles round the difference across the tolerance (118.76 against 113.1 with
  tolerance 5.66 gives 5.660000000000011 in doubles), the program rejects what this
  equation accepts.
\<close>

lemma check_numeric_answer_deviation:
  assumes "py_strip s \<noteq> []" and "pf (replace_comma s) = Some (Fin u)"
    and "py_float pf c = Inr (Fin cv)"
  shows "check_numeric_answer pf (Some s) c tolv =
           (if tolerance_blank tolv then \<bar>u - cv\<bar> \<le> 0
            else (case py_float pf tolv of Inl e \<Rightarrow> False | Inr t \<Rightarrow> fle (Fin \<bar>u - cv\<bar>) t))"
  using assms
  by (simp add: check_numeric_answer_def check_numeric_body_def split: sum.splits)

text \<open>A tolerance that is another NaN passes the test for blank and accepts no answer.\<close>

lemma nan_tolerance_rejects: "\<not> check_numeric_answer pf ans c (PyFloat NaN)"
  by (simp add: check_numeric_answer_def check_numeric_body_def fle_NaN_right
      split: option.splits sum.splits)

text \<open>An absent answer to a numeric row is not accepted.\<close>

lemma absent_numeric_answer: "\<not> is_mcq sf r \<Longrightarrow> \<not> row_ok sf pf r None"
  by (simp add: row_ok_def check_numeric_answer_def check_numeric_body_def)

section \<open>Numeric tolerance\<close>

text \<open>
  C2. A numeric answer is correct if and only if its deviation from the correct value is
  at most the tolerance, and a tolerance that is absent or blank counts as 0. The code
  does not do this for the blank tolerance cell of a CSV file: pandas reads the cell as
  NaN, a float that is not the object \<^verbatim>\<open>np.nan\<close>, so the test
  \<^verbatim>\<open>tolerance not in (None, "", np.nan)\<close> lets it through, and no deviation is
  \<^verbatim>\<open><=\<close> NaN. With the column absent, the exact answer 10 to a row whose correct
  value is 10 is graded correct with score 1; with the blank cell it is graded incorrect
  with score 0.
\<close>

theorem blank_csv_tolerance_rejects_exact_answer:
  "fst (grade_exam str_float2 dec_float [num_10\<lparr>tolerance := None\<rparr>] [(1, 2) \<mapsto> ''10'']) =
     Inr (Fin 1, Fin 1,
          [\<lparr>d_variant = 1, d_qnum = 2, d_type = PyStr ''num'', d_topic = PyStr [],
            d_difficulty = PyStr [], d_correct = PyFloat (Fin 10), d_your = Some ''10'',
            d_is_correct = True, d_score = Fin 1, d_max_score = Fin 1\<rparr>])
   \<and> tolerance num_10 = Some (PyFloat NaN)
   \<and> fst (grade_exam str_float2 dec_float [num_10] [(1, 2) \<mapsto> ''10'']) =
     Inr (Fin 0, Fin 1,
          [\<lparr>d_variant = 1, d_qnum = 2, d_type = PyStr ''num'', d_topic = PyStr [],
            d_difficulty = PyStr [], d_correct = PyFloat (Fin 10), d_your = Some ''10'',
            d_is_correct = False, d_score = Fin 0, d_max_score = Fin 1\<rparr>])"
  by code_simp

section \<open>Multiple choice\<close>

text \<open>
  C3. When grading returns, a multiple-choice row with an answer in the map is marked
  correct if and only if the answer and the stored correct value are equal after
  \<^verbatim>\<open>upper()\<close>; against the stored value B, the answers b and B are both correct.
\<close>

theorem mcq_graded_by_normalized_letter:
  assumes "fst (grade_exam sf pf bank d) = Inr (t, m, ds)"
    and "i < length bank"
    and "is_mcq sf (bank ! i)"
    and "d (variant (bank ! i), qnum (bank ! i)) = Some s"
  shows "d_is_correct (ds ! i) = (py_upper s = py_upper (py_str sf (correct (bank ! i))))
       \<and> row_ok sf pf (r\<lparr>qtype := PyStr ''mcq'', correct := PyStr ''B''\<rparr>) (Some ''b'')
       \<and> row_ok sf pf (r\<lparr>qtype := PyStr ''mcq'', correct := PyStr ''B''\<rparr>) (Some ''B'')"
proof -
  have "d_is_correct (ds ! i) = row_ok sf pf (bank ! i) (Some s)"
    using grade_exam_Inr [OF assms(1,2)] assms(4) by simp
  then show ?thesis
    using assms(3) by (simp add: row_ok_def str_ans_def is_mcq_def lower_mcq upper_letters)
qed

theorem mcq_graded_by_normalized_letter_witness:
  "fst (grade_exam str_float2 dec_float [mcq_B] [(1, 1) \<mapsto> ''b'']) =
     Inr (Fin 1, Fin 1,
          [\<lparr>d_variant = 1, d_qnum = 1, d_type = PyStr ''mcq'', d_topic = PyStr [],
            d_difficulty = PyStr [], d_correct = PyStr ''B'', d_your = Some ''b'',
            d_is_correct = True, d_score = Fin 1, d_max_score = Fin 1\<rparr>])
   \<and> is_mcq str_float2 ([mcq_B] ! 0)
   \<and> py_upper ''b'' = py_upper (py_str str_float2 (correct ([mcq_B] ! 0)))"
proof -
  let ?d = "[(1, 1) \<mapsto> ''b''] :: answers"
  let ?ds = "[\<lparr>d_variant = 1, d_qnum = 1, d_type = PyStr ''mcq'', d_topic = PyStr [],
            d_difficulty = PyStr [], d_correct = PyStr ''B'', d_your = Some ''b'',
            d_is_correct = True, d_score = Fin 1, d_max_score = Fin 1\<rparr>]"
  have h1: "fst (grade_exam str_float2 dec_float [mcq_B] ?d) = Inr (Fin 1, Fin 1, ?ds)"
    by code_simp
  have h2: "0 < length [mcq_B]" by simp
  have h3: "is_mcq str_float2 ([mcq_B] ! 0)" by code_simp
  have h4: "?d (variant ([mcq_B] ! 0), qnum ([mcq_B] ! 0)) = Some ''b''"
    by (simp add: mcq_B_def)
  from mcq_graded_by_normalized_letter [OF h1 h2 h3 h4] h1 h3 show ?thesis by simp
qed

text \<open>
  C10. When grading returns, a multiple-choice row with no answer in the map is marked
  correct if and only if its stored correct value is NONE after \<^verbatim>\<open>upper()\<close>: never,
  with score 0, for a stored letter A, B, C or D, and always for the stored text None.
\<close>

theorem unanswered_mcq_compared_as_None:
  assumes "fst (grade_exam sf pf bank d) = Inr (t, m, ds)"
    and "i < length bank"
    and "is_mcq sf (bank ! i)"
    and "d (variant (bank ! i), qnum (bank ! i)) = None"
  shows "d_is_correct (ds ! i) = (py_upper (py_str sf (correct (bank ! i))) = ''NONE'')
       \<and> (correct (bank ! i) \<in> {PyStr ''A'', PyStr ''B'', PyStr ''C'', PyStr ''D''}
            \<longrightarrow> \<not> d_is_correct (ds ! i) \<and> d_score (ds ! i) = Fin 0)
       \<and> (correct (bank ! i) = PyStr ''None'' \<longrightarrow> d_is_correct (ds ! i))"
proof -
  have ok: "d_is_correct (ds ! i) = row_ok sf pf (bank ! i) None"
    and sc: "d_score (ds ! i) = (if d_is_correct (ds ! i) then d_max_score (ds ! i) else Fin 0)"
    using grade_exam_Inr [OF assms(1,2)] assms(4) by simp_all
  have iff: "d_is_correct (ds ! i) = (py_upper (py_str sf (correct (bank ! i))) = ''NONE'')"
    using ok assms(3) by (auto simp: row_ok_def str_ans_def upper_None)
  show ?thesis using iff sc upper_letters upper_None by auto
qed

theorem unanswered_mcq_compared_as_None_witness:
  "\<not> d_is_correct
       (\<lparr>d_variant = 1, d_qnum = 1, d_type = PyStr ''mcq'', d_topic = PyStr [],
         d_difficulty = PyStr [], d_correct = PyStr ''B'', d_your = None,
         d_is_correct = False, d_score = Fin 0, d_max_score = Fin 1\<rparr>)
   \<and> fst (grade_exam str_float2 dec_float [mcq_B] Map.empty) =
       Inr (Fin 0, Fin 1,
            [\<lparr>d_variant = 1, d_qnum = 1, d_type = PyStr ''mcq'', d_topic = PyStr [],
              d_difficulty = PyStr [], d_correct = PyStr ''B'', d_your = None,
              d_is_correct = False, d_score = Fin 0, d_max_score = Fin 1\<rparr>])
   \<and> fst (grade_exam str_float2 dec_float [mcq_B\<lparr>correct := PyStr ''None''\<rparr>] Map.empty) =
       Inr (Fin 1, Fin 1,
            [\<lparr>d_variant = 1, d_qnum = 1, d_type = PyStr ''mcq'', d_topic = PyStr [],
              d_difficulty = PyStr [], d_correct = PyStr ''None'', d_your = None,
              d_is_correct = True, d_score = Fin 1, d_max_score = Fin 1\<rparr>])
   \<and> correct ([mcq_B] ! 0) \<in> {PyStr ''A'', PyStr ''B'', PyStr ''C'', PyStr ''D''}
   \<and> correct ([mcq_B\<lparr>correct := PyStr ''None''\<rparr>] ! 0) = PyStr ''None''"
proof -
  let ?d = "Map.empty :: answers"
  let ?dsB = "[\<lparr>d_variant = 1, d_qnum = 1, d_type = PyStr ''mcq'', d_topic = PyStr [],
              d_difficulty = PyStr [], d_correct = PyStr ''B'', d_your = None,
              d_is_correct = False, d_score = Fin 0, d_max_score = Fin 1\<rparr>]"
  let ?dsN = "[\<lparr>d_variant = 1, d_qnum = 1, d_type = PyStr ''mcq'', d_topic = PyStr [],
              d_difficulty = PyStr [], d_correct = PyStr ''None'', d_your = None,
              d_is_correct = True, d_score = Fin 1, d_max_score = Fin 1\<rparr>]"
  let ?N = "mcq_B\<lparr>correct := PyStr ''None''\<rparr>"
  have b1: "fst (grade_exam str_float2 dec_float [mcq_B] ?d) = Inr (Fin 0, Fin 1, ?dsB)"
    by code_simp
  have b3: "is_mcq str_float2 ([mcq_B] ! 0)" by code_simp
  have b5: "correct ([mcq_B] ! 0) \<in> {PyStr ''A'', PyStr ''B'', PyStr ''C'', PyStr ''D''}"
    by (simp add: mcq_B_def)
  have n1: "fst (grade_exam str_float2 dec_float [?N] ?d) = Inr (Fin 1, Fin 1, ?dsN)"
    by code_simp
  have n3: "is_mcq str_float2 ([?N] ! 0)" by code_simp
  have n5: "correct ([?N] ! 0) = PyStr ''None''" by simp
  have "\<not> d_is_correct (?dsB ! 0)"
    using unanswered_mcq_compared_as_None [OF b1 _ b3] b5 by simp
  moreover have "d_is_correct (?dsN ! 0)"
    using unanswered_mcq_compared_as_None [OF n1 _ n3] n5 by simp
  ultimately show ?thesis using b1 n1 b5 n5 by simp
qed

section \<open>Missing answers\<close>

text \<open>
  C5. A question whose key is absent from the answer map is graded incorrect with score
  0, its score still counting in the maximum. The code does not do this for a
  multiple-choice row whose stored correct value is the text None: the absent answer is
  \<^verbatim>\<open>None\<close>, \<^verbatim>\<open>str(None)\<close> is compared with it, and the row is marked correct with
  its full score. The numeric path tests for \<^verbatim>\<open>None\<close> first.
\<close>

theorem unanswered_mcq_with_correct_None_is_awarded:
  "fst (grade_exam str_float2 dec_float [mcq_B\<lparr>correct := PyStr ''None''\<rparr>] Map.empty) =
     Inr (Fin 1, Fin 1,
          [\<lparr>d_variant = 1, d_qnum = 1, d_type = PyStr ''mcq'', d_topic = PyStr [],
            d_difficulty = PyStr [], d_correct = PyStr ''None'', d_your = None,
            d_is_correct = True, d_score = Fin 1, d_max_score = Fin 1\<rparr>])"
  by code_simp

section \<open>Score conservation\<close>

text \<open>\<^verbatim>\<open>float(row.score)\<close> on a row whose score it turns into a finite value.\<close>

lemma py_float_score:
  assumes "score_finite pf r"
  shows "py_float pf (score r) = Inr (Fin (score_of pf r))"
proof (cases "py_float pf (score r)")
  case (Inl e)
  with assms show ?thesis by (simp add: score_finite_def score_float_def)
next
  case (Inr y)
  with assms show ?thesis
    by (cases y) (simp_all add: score_finite_def score_float_def score_of_def)
qed

text \<open>One pass of the loop body on such a row.\<close>

lemma grade_row_fin:
  assumes "score_finite pf r"
  shows "\<exists>ds. grade_row sf pf r ans (ds0, Fin t0, Fin m0) =
            Inr (ds, Fin (t0 + (if row_ok sf pf r ans then score_of pf r else 0)),
                 Fin (m0 + score_of pf r))"
  by (simp add: grade_row_def py_float_score [OF assms])

text \<open>The loop on such rows returns, whatever the sign of a score, with both sums.\<close>

lemma grade_rows_fin:
  assumes "\<forall>r\<in>set rs. score_finite pf r"
  shows "\<exists>ds. grade_rows sf pf rs (ds0, Fin t0, Fin m0) d =
            (Inr (ds, Fin (t0 + sum_list (map (awarded sf pf d) rs)),
                  Fin (m0 + sum_list (map (score_of pf) rs))), d)"
  using assms
proof (induction rs arbitrary: ds0 t0 m0)
  case Nil
  show ?case by simp
next
  case (Cons r rs)
  from Cons.prems have r: "score_finite pf r" and rs: "\<forall>r\<in>set rs. score_finite pf r"
    by simp_all
  from grade_row_fin [OF r, of sf "d (variant r, qnum r)" ds0 t0 m0]
  obtain ds1 where
    g1: "grade_row sf pf r (d (variant r, qnum r)) (ds0, Fin t0, Fin m0) =
           Inr (ds1, Fin (t0 + awarded sf pf d r), Fin (m0 + score_of pf r))"
    by (auto simp: awarded_def graded_correct_def)
  from Cons.IH [OF rs, of ds1 "t0 + awarded sf pf d r" "m0 + score_of pf r"]
  obtain ds2 where
    g2: "grade_rows sf pf rs (ds1, Fin (t0 + awarded sf pf d r), Fin (m0 + score_of pf r)) d =
           (Inr (ds2, Fin (t0 + awarded sf pf d r + sum_list (map (awarded sf pf d) rs)),
                 Fin (m0 + score_of pf r + sum_list (map (score_of pf) rs))), d)"
    by blast
  have "grade_rows sf pf (r # rs) (ds0, Fin t0, Fin m0) d =
          (Inr (ds2, Fin (t0 + sum_list (map (awarded sf pf d) (r # rs))),
                Fin (m0 + sum_list (map (score_of pf) (r # rs)))), d)"
    using g1 g2 by (simp add: dict_get_def add.assoc)
  then show ?case by blast
qed

text \<open>A score that is no number makes \<^verbatim>\<open>float(row.score)\<close>, and the grading, raise.\<close>

lemma grade_row_raises:
  assumes "py_float pf (score r) = Inl e"
  shows "grade_row sf pf r ans acc = Inl e"
  using assms by (cases acc) (simp add: grade_row_def Let_def)

lemma huge_score_raises:
  "fst (grade_exam str_float2 dec_float [mcq_B\<lparr>score := PyInt (10 ^ 309)\<rparr>] Map.empty) =
     Inl OverflowError"
  by code_simp

lemma text_score_raises:
  "fst (grade_exam str_float2 dec_float [mcq_B\<lparr>score := PyStr ''abc''\<rparr>] Map.empty) =
     Inl ValueError"
  by code_simp

text \<open>
  C6, as the claim states it: for every bank, \<^verbatim>\<open>total <= max_total\<close>. A row with score
  -1 and no answer gives total 0.0 and max_total -1.0.
\<close>

theorem negative_score_breaks_total_le_max:
  "fst (grade_exam str_float2 dec_float [mcq_B\<lparr>score := PyInt (- 1)\<rparr>] Map.empty) =
     Inr (Fin 0, Fin (- 1),
          [\<lparr>d_variant = 1, d_qnum = 1, d_type = PyStr ''mcq'', d_topic = PyStr [],
            d_difficulty = PyStr [], d_correct = PyStr ''B'', d_your = None,
            d_is_correct = False, d_score = Fin 0, d_max_score = Fin (- 1)\<rparr>])
   \<and> \<not> fle (Fin 0) (Fin (- 1))"
  by code_simp

text \<open>
  C6, amended. For every bank whose scores \<^verbatim>\<open>float\<close> turns into finite numbers, of
  either sign, and every answer map, grading returns; the maximum it returns is the sum of
  the scores of all rows, whatever the answers, and the total is the sum of the scores of
  the rows graded correct. So the total is at most the maximum whenever no row graded
  incorrect has a negative score, in particular whenever no score is negative.
\<close>

theorem score_conservation:
  assumes "\<forall>r\<in>set bank. score_finite pf r"
  shows "\<exists>ds. fst (grade_exam sf pf bank d) =
              Inr (Fin (sum_list (map (awarded sf pf d) bank)),
                   Fin (sum_list (map (score_of pf) bank)), ds)
         \<and> ((\<forall>r\<in>set bank. \<not> graded_correct sf pf d r \<longrightarrow> 0 \<le> score_of pf r) \<longrightarrow>
              sum_list (map (awarded sf pf d) bank) \<le> sum_list (map (score_of pf) bank)
              \<and> fle (Fin (sum_list (map (awarded sf pf d) bank)))
                     (Fin (sum_list (map (score_of pf) bank))))
         \<and> ((\<forall>r\<in>set bank. 0 \<le> score_of pf r) \<longrightarrow>
              fle (Fin (sum_list (map (awarded sf pf d) bank)))
                  (Fin (sum_list (map (score_of pf) bank))))"
proof -
  from grade_rows_fin [OF assms, of sf "[]" 0 0 d]
  obtain ds where
    "grade_rows sf pf bank ([], Fin 0, Fin 0) d =
       (Inr (ds, Fin (sum_list (map (awarded sf pf d) bank)),
             Fin (sum_list (map (score_of pf) bank))), d)"
    by auto
  then have ret: "fst (grade_exam sf pf bank d) =
              Inr (Fin (sum_list (map (awarded sf pf d) bank)),
                   Fin (sum_list (map (score_of pf) bank)), ds)"
    by (simp add: grade_exam_def)
  have le: "sum_list (map (awarded sf pf d) bank) \<le> sum_list (map (score_of pf) bank)"
    if "\<forall>r\<in>set bank. \<not> graded_correct sf pf d r \<longrightarrow> 0 \<le> score_of pf r"
    using that by (intro sum_list_mono) (simp add: awarded_def)
  from ret le show ?thesis by auto
qed

theorem score_conservation_witness:
  "score_finite dec_float mcq_B \<and> score_finite dec_float (num_10\<lparr>score := PyStr ''-2.5''\<rparr>)
   \<and> score_finite dec_float num_10
   \<and> graded_correct str_float2 dec_float [(1, 1) \<mapsto> ''b''] mcq_B
   \<and> \<not> graded_correct str_float2 dec_float [(1, 1) \<mapsto> ''b''] num_10
   \<and> (\<exists>ds. fst (grade_exam str_float2 dec_float [mcq_B, num_10] [(1, 1) \<mapsto> ''b'']) =
          Inr (Fin 1, Fin 2, ds))
   \<and> fle (Fin 1) (Fin 2)
   \<and> (\<exists>ds. fst (grade_exam str_float2 dec_float [mcq_B, num_10\<lparr>score := PyStr ''-2.5''\<rparr>]
                  [(1, 1) \<mapsto> ''b'']) = Inr (Fin 1, Fin (- 1.5), ds))"
proof -
  let ?d = "[(1, 1) \<mapsto> ''b''] :: answers"
  let ?neg = "num_10\<lparr>score := PyStr ''-2.5''\<rparr>"
  have f1: "score_finite dec_float mcq_B" and f2: "score_finite dec_float num_10"
    and f3: "score_finite dec_float ?neg"
    by code_simp+
  have s1: "score_of dec_float mcq_B = 1" and s2: "score_of dec_float num_10 = 1"
    and s3: "score_of dec_float ?neg = - 2.5"
    by code_simp+
  have g1: "graded_correct str_float2 dec_float ?d mcq_B"
    and g2: "\<not> graded_correct str_float2 dec_float ?d num_10"
    and g3: "\<not> graded_correct str_float2 dec_float ?d ?neg"
    by code_simp+
  have a: "\<forall>r\<in>set [mcq_B, num_10]. score_finite dec_float r" using f1 f2 by simp
  have b: "\<forall>r\<in>set [mcq_B, ?neg]. score_finite dec_float r" using f1 f3 by simp
  have nn: "\<forall>r\<in>set [mcq_B, num_10]. 0 \<le> score_of dec_float r" using s1 s2 by simp
  have "(\<exists>ds. fst (grade_exam str_float2 dec_float [mcq_B, num_10] ?d) =
          Inr (Fin 1, Fin 2, ds)) \<and> fle (Fin 1) (Fin 2)"
    using score_conservation [OF a, of str_float2 ?d] nn s1 s2 g1 g2
    by (simp add: awarded_def)
  moreover have "\<exists>ds. fst (grade_exam str_float2 dec_float [mcq_B, ?neg] ?d) =
          Inr (Fin 1, Fin (- 1.5), ds)"
    using score_conservation [OF b, of str_float2 ?d] s1 s3 g1 g3
    by (simp add: awarded_def)
  ultimately show ?thesis using f1 f2 f3 g1 g2 by blast
qed

section \<open>Purity of grading\<close>

text \<open>
  C9. \<^verbatim>\<open>grade_exam\<close> leaves the answer map as it was given, and a second call on the
  same bank, in the state the first call left, returns what the first returned.
\<close>

theorem grade_exam_pure:
  "snd (grade_exam sf pf bank d) = d \<and>
   grade_exam sf pf bank (snd (grade_exam sf pf bank d)) = grade_exam sf pf bank d"
  by (simp add: grade_exam_answers)

section \<open>Parsing a numeric answer\<close>

text \<open>\<^verbatim>\<open>strip()\<close> leaves nothing exactly when every character is a blank.\<close>

lemma strip_empty_iff: "py_strip s = [] \<longleftrightarrow> (\<forall>c\<in>set s. py_isspace c)"
proof
  assume "py_strip s = []"
  then have "dropWhile py_isspace (rev (dropWhile py_isspace s)) = []"
    by (simp add: py_strip_def)
  then have all: "\<forall>c\<in>set (dropWhile py_isspace s). py_isspace c"
    by simp
  have "dropWhile py_isspace s = []"
  proof (cases "dropWhile py_isspace s")
    case Nil
    then show ?thesis .
  next
    case (Cons c cs)
    then have "\<not> py_isspace c" by (metis hd_dropWhile list.sel(1) list.distinct(1))
    with all Cons show ?thesis by simp
  qed
  then show "\<forall>c\<in>set s. py_isspace c" by simp
next
  assume "\<forall>c\<in>set s. py_isspace c"
  then show "py_strip s = []" by (auto simp: py_strip_def dest: set_dropWhileD)
qed

lemma isspace_comma: "\<not> py_isspace CHR '',''" "\<not> py_isspace CHR ''.''"
  by (simp_all add: py_isspace_def)

lemma isspace_replace_comma:
  "(\<forall>c\<in>set (replace_comma s). py_isspace c) \<longleftrightarrow> (\<forall>c\<in>set s. py_isspace c)"
  by (induction s) (auto simp: replace_comma_def isspace_comma)

lemma strip_replace_comma: "py_strip (replace_comma s) = [] \<longleftrightarrow> py_strip s = []"
  by (simp only: strip_empty_iff isspace_replace_comma)

lemma replace_comma_idem: "replace_comma (replace_comma s) = replace_comma s"
  by (simp add: replace_comma_def)

lemma replace_comma_314: "replace_comma ''3,14'' = ''3.14''" "replace_comma ''3.14'' = ''3.14''"
  by (simp_all add: replace_comma_def)

text \<open>
  C4. The text of a numeric answer is read by \<^verbatim>\<open>float\<close> after every comma has become
  a point, so a text and the same text with points for commas are graded alike, 3,14 and
  3.14 among them. A text that \<^verbatim>\<open>float\<close> rejects, a blank text and an absent answer are
  graded incorrect, and so is every case in which the body raises:
  \<^verbatim>\<open>check_numeric_answer\<close> always returns a truth value.
\<close>

theorem numeric_answer_parsing:
  "check_numeric_answer pf (Some (replace_comma s)) c tolv = check_numeric_answer pf (Some s) c tolv
   \<and> check_numeric_answer pf (Some ''3,14'') c tolv = check_numeric_answer pf (Some ''3.14'') c tolv
   \<and> (pf (replace_comma s) = None \<longrightarrow> \<not> check_numeric_answer pf (Some s) c tolv)
   \<and> (py_strip s = [] \<longrightarrow> \<not> check_numeric_answer pf (Some s) c tolv)
   \<and> \<not> check_numeric_answer pf None c tolv
   \<and> (\<forall>e. check_numeric_body pf ans c tolv = Inl e \<longrightarrow> \<not> check_numeric_answer pf ans c tolv)"
proof -
  have a: "check_numeric_answer pf (Some (replace_comma s)) c tolv
             = check_numeric_answer pf (Some s) c tolv" for s
    by (simp add: check_numeric_answer_def check_numeric_body_def strip_replace_comma
        replace_comma_idem)
  have b: "check_numeric_answer pf (Some ''3,14'') c tolv = check_numeric_answer pf (Some ''3.14'') c tolv"
    using a [of "''3,14''"] by (simp only: replace_comma_314)
  have c: "pf (replace_comma s) = None \<longrightarrow> \<not> check_numeric_answer pf (Some s) c tolv"
    by (simp add: check_numeric_answer_def check_numeric_body_def)
  have d: "py_strip s = [] \<longrightarrow> \<not> check_numeric_answer pf (Some s) c tolv"
    by (simp add: check_numeric_answer_def check_numeric_body_def)
  have e: "\<not> check_numeric_answer pf None c tolv"
    by (simp add: check_numeric_answer_def check_numeric_body_def)
  have f: "\<forall>e. check_numeric_body pf ans c tolv = Inl e \<longrightarrow> \<not> check_numeric_answer pf ans c tolv"
    by (simp add: check_numeric_answer_def)
  from a b c d e f show ?thesis by blast
qed

theorem numeric_answer_parsing_witness:
  "dec_float (replace_comma ''abc'') = None
   \<and> \<not> check_numeric_answer dec_float (Some ''abc'') (PyFloat (Fin 3.14)) PyNone
   \<and> py_strip ''  '' = []
   \<and> \<not> check_numeric_answer dec_float (Some ''  '') (PyFloat (Fin 3.14)) PyNone
   \<and> check_numeric_body dec_float (Some ''3,14'') PyNone PyNone = Inl TypeError
   \<and> \<not> check_numeric_answer dec_float (Some ''3,14'') PyNone PyNone
   \<and> check_numeric_answer dec_float (Some ''3,14'') (PyFloat (Fin 3.14)) PyNone
   \<and> check_numeric_answer dec_float (Some ''3.14'') (PyFloat (Fin 3.14)) PyNone"
proof -
  have h1: "dec_float (replace_comma ''abc'') = None" by code_simp
  have h2: "py_strip ''  '' = []" by code_simp
  have h3: "check_numeric_body dec_float (Some ''3,14'') PyNone PyNone = Inl TypeError"
    by code_simp
  have h4: "check_numeric_answer dec_float (Some ''3.14'') (PyFloat (Fin 3.14)) PyNone"
    by code_simp
  have "\<not> check_numeric_answer dec_float (Some ''abc'') (PyFloat (Fin 3.14)) PyNone"
    using numeric_answer_parsing [of dec_float "''abc''" "PyFloat (Fin 3.14)" PyNone] h1 by blast
  moreover have "\<not> check_numeric_answer dec_float (Some ''  '') (PyFloat (Fin 3.14)) PyNone"
    using numeric_answer_parsing [of dec_float "''  ''" "PyFloat (Fin 3.14)" PyNone] h2 by blast
  moreover have "\<not> check_numeric_answer dec_float (Some ''3,14'') PyNone PyNone"
    using numeric_answer_parsing [of dec_float _ PyNone PyNone "Some ''3,14''"] h3 by blast
  moreover have "check_numeric_answer dec_float (Some ''3,14'') (PyFloat (Fin 3.14)) PyNone"
    using numeric_answer_parsing [of dec_float _ "PyFloat (Fin 3.14)" PyNone] h4 by blast
  ultimately show ?thesis using h1 h2 h3 h4 by blast
qed

section \<open>Failures of the import\<close>

text \<open>
  No upload, a read that raises and a missing column all end in the synthetic bank; a
  coercion that raises leaves the block.
\<close>

lemma import_bank_no_upload:
  "import_bank read_csv read_json rd_int None = ([InfoDemoBank], Inr DemoBank)"
  by (simp add: import_bank_def load_bank_from_upload_def)

lemma import_bank_read_fails:
  assumes "endswith (py_lower (name up)) ''.csv''" and "read_csv (data up) = Inl e"
  shows "import_bank read_csv read_json rd_int (Some up) =
           ([ErrorRead e, InfoDemoBank], Inr DemoBank)"
  using assms by (simp add: import_bank_def load_bank_from_upload_def)

lemma import_bank_missing_column:
  assumes "endswith (py_lower (name up)) ''.csv''" and "read_csv (data up) = Inr df"
    and "filter (\<lambda>c. c \<notin> set (columns df)) required \<noteq> []"
  shows "import_bank read_csv read_json rd_int (Some up) =
           ([ErrorMissing (filter (\<lambda>c. c \<notin> set (columns df)) required), InfoDemoBank],
            Inr DemoBank)"
  using assms by (simp add: import_bank_def load_bank_from_upload_def Let_def)

lemma import_bank_coercion_fails:
  assumes "endswith (py_lower (name up)) ''.csv''" and "read_csv (data up) = Inr df"
    and "filter (\<lambda>c. c \<notin> set (columns df)) required = []"
    and "coerce_column rd_int ''variant'' df = Inl e"
  shows "import_bank read_csv read_json rd_int (Some up) = ([], Inl e)"
  using assms by (simp add: import_bank_def load_bank_from_upload_def Let_def)

text \<open>
  C1. Every failure of the import falls back to the synthetic bank. The code does not do
  this when \<^verbatim>\<open>variant\<close> or \<^verbatim>\<open>qnum\<close> cannot be coerced: \<^verbatim>\<open>astype(int)\<close> stands
  after the \<^verbatim>\<open>try\<close>, its \<^verbatim>\<open>ValueError\<close> leaves \<^verbatim>\<open>load_bank_from_upload\<close> and the
  script, no \<^verbatim>\<open>st.error\<close> of the program is shown and no bank is chosen. The same file
  without its other columns is caught by the check for missing columns and falls back.
\<close>

theorem coercion_failure_leaves_import_uncaught:
  "import_bank Inr Inr dec_int (Some abc_variant_csv) = ([], Inl ValueError)
   \<and> import_bank Inr Inr dec_int
        (Some (abc_variant_csv\<lparr>data := [(''variant'', [PyStr ''abc''])]\<rparr>)) =
       ([ErrorMissing [''qnum'', ''type'', ''question'', ''correct'', ''score''], InfoDemoBank],
        Inr DemoBank)"
  by code_simp

section \<open>Timer expiry\<close>

text \<open>
  C7. In a started session the timer block shows the minutes and seconds of
  \<open>max (duration - elapsed) 0\<close>, the duration being 100 minutes; once the elapsed time
  has reached the duration, the block leaves the session submitted, with no submit
  action, and asks for a rerun if it was not submitted before.
\<close>

theorem timer_expiry:
  assumes "started ss" and "start_time ss = Some t0"
  shows "\<exists>ss' msgs rerun.
           timer_block now ss =
             Inr (ss', Some (remain now t0 div 60000000, (remain now t0 div 1000000) mod 60),
                  msgs, rerun)
         \<and> remain now t0 = max (100 * 60 * 1000000 - (now - t0)) 0
         \<and> (100 * 60 * 1000000 \<le> now - t0 \<longrightarrow>
              submitted ss' \<and> remain now t0 = 0 \<and> (\<not> submitted ss \<longrightarrow> rerun))"
  using assms
  by (auto simp: timer_block_def remain_def duration_def EXAM_DURATION_MIN_def Let_def)

theorem timer_expiry_witness:
  "started \<lparr>started = True, submitted = False, start_time = Some 0,
             answers = Map.empty, active_variant = 1\<rparr>
   \<and> (100 * 60 * 1000000 :: int) \<le> 101 * 60 * 1000000 - 0
   \<and> timer_block (101 * 60 * 1000000)
        \<lparr>started = True, submitted = False, start_time = Some 0,
         answers = Map.empty, active_variant = 1\<rparr> =
       Inr (\<lparr>started = True, submitted = True, start_time = Some 0,
             answers = Map.empty, active_variant = 1\<rparr>, Some (0, 0), [WarningTimeUp], True)"
proof -
  let ?ss = "\<lparr>started = True, submitted = False, start_time = Some (0::int),
             answers = (Map.empty :: answers), active_variant = 1\<rparr>"
  have h1: "started ?ss" and h2: "start_time ?ss = Some 0" by simp_all
  from timer_expiry [OF h1 h2, of "101 * 60 * 1000000"] obtain ss' msgs rerun where
    tb: "timer_block (101 * 60 * 1000000) ?ss =
           Inr (ss', Some (remain (101 * 60 * 1000000) 0 div 60000000,
                (remain (101 * 60 * 1000000) 0 div 1000000) mod 60), msgs, rerun)"
    and sub: "submitted ss'" by auto
  have "timer_block (101 * 60 * 1000000) ?ss =
       Inr (?ss\<lparr>submitted := True\<rparr>, Some (0, 0), [WarningTimeUp], True)"
    by (simp add: timer_block_def remain_def duration_def EXAM_DURATION_MIN_def)
  with tb sub h1 show ?thesis by simp
qed

section \<open>Determinism of the synthetic bank\<close>

text \<open>
  C8. What \<^verbatim>\<open>generate_demo_bank(seed)\<close> returns does not depend on the state of the
  global generators it is called in, since it seeds them first: two calls with the same
  seed, the second in the world the first one left, return the same rows, equal in every
  field, or raise the same exception.
\<close>

theorem generate_demo_bank_deterministic:
  "fst (generate_demo_bank L sf seed w1) = fst (generate_demo_bank L sf seed w2)
   \<and> fst (generate_demo_bank L sf seed (snd (generate_demo_bank L sf seed w))) =
       fst (generate_demo_bank L sf seed w)"
  by (simp add: generate_demo_bank_def Let_def split: prod.splits)

end
